theory Spec2Isabelle
  imports Main
begin

section \<open>The reference-JIT backend wrapper for PyTorch (refjit.py)\<close>

text \<open>
  The file sequences calls into collaborators that live outside it: the MLIR pass manager
  (\<^verbatim>\<open>PassManager.parse\<close>, \<^verbatim>\<open>PassManager()\<close>, \<^verbatim>\<open>pm.run\<close>), the native refjit object
  (\<^verbatim>\<open>build_backend_compilation_pipeline\<close>, \<^verbatim>\<open>JITModule.from_compiled_module\<close>),
  \<^verbatim>\<open>get_runtime_libs\<close>, \<^verbatim>\<open>logging.debug\<close>, the context manager of the module's MLIR
  context, \<^verbatim>\<open>torch.Tensor.numpy\<close> and the parent class \<^verbatim>\<open>JitModuleInvoker\<close>.
  They are parameters of the model. A call that can raise returns a sum, \<open>Inl\<close> the
  exception. Every call into a collaborator is appended to a trace, in program order.

  What the model takes for granted about the collaborators:
  \<^item> what a collaborator returns depends only on the arguments it is called with (for
    \<^verbatim>\<open>pm.run\<close> and \<^verbatim>\<open>from_compiled_module\<close>: on the IR the module holds at that moment);
  \<^item> only \<^verbatim>\<open>pm.run\<close> changes the IR of a module, and only of the module it is given;
  \<^item> \<^verbatim>\<open>logging.debug\<close> changes no module; like the other collaborators it may raise;
  \<^item> leaving the MLIR context does not swallow an exception raised inside the
    \<^verbatim>\<open>with\<close> block.
\<close>

subsection \<open>The two pass lists\<close>

definition OBJECT_GRAPH_LOWERING_PASSES :: "string list" where
  "OBJECT_GRAPH_LOWERING_PASSES =
    [''torch-globalize-pipeline'',
     ''symbol-dce'',
     ''torch-adjust-calling-conventions'']"

definition TORCH_TO_TCF_PASSES :: "string list" where
  "TORCH_TO_TCF_PASSES =
    [''func(aten-recognize-kernels)'',
     ''numpy-public-functions-to-tensor'',
     ''func(numpy-array-to-tensor)'',
     ''func(torch-refine-types)'',
     ''numpy-refine-public-return'',
     ''func(numpy-array-to-tensor)'',
     ''func(convert-aten-to-tcf)'']"

text \<open>Python's \<^verbatim>\<open>sep.join(xs)\<close> on a tuple of strings.\<close>

fun join :: "string \<Rightarrow> string list \<Rightarrow> string" where
  "join sep [] = []"
| "join sep [x] = x"
| "join sep (x # y # ys) = x @ sep @ join sep (y # ys)"

subsection \<open>Values, objects and the trace of external calls\<close>

text \<open>A Python exception. \<^verbatim>\<open>StopIteration\<close> and \<^verbatim>\<open>RuntimeError\<close> are told apart because a
  generator treats the former specially; any other exception is an opaque value carrying
  its text.\<close>

datatype exn = Exception string | StopIteration | RuntimeError string

text \<open>
  A \<^verbatim>\<open>Module\<close> is a mutable object: the caller and the methods share it by reference.
  The heap maps each module reference to the IR it currently holds.
\<close>

type_synonym mref = nat

text \<open>The argument formatted into a debug message: a module (as its IR at that moment)
  or a pipeline string.\<close>

datatype 'ir logarg = ModuleArg 'ir | StrArg string

datatype ('ir, 'pm, 'libs) call =
    ContextEnter mref
  | ContextExit mref
  | LoggingDebug string "'ir logarg"
  | PassManagerParse string
  | PassManagerNew
  | PassManagerRun 'pm mref
  | BuildBackendCompilationPipeline 'pm
  | GetRuntimeLibs
  | FromCompiledModule mref 'libs

text \<open>The object returned by \<^verbatim>\<open>refjit_backend.get_refjit()\<close>. The pipeline builder
  mutates the pass manager it is given; the model returns the updated pass manager.\<close>

record ('ir, 'pm, 'libs, 'jit) refjit_obj =
  build_backend_compilation_pipeline :: "'pm \<Rightarrow> exn + 'pm"
  from_compiled_module :: "'ir \<Rightarrow> 'libs \<Rightarrow> exn + 'jit"

text \<open>The names the file imports. \<^verbatim>\<open>pm.run(module)\<close> rewrites the module in place and
  may raise after having rewritten part of it: it yields the new IR and the exception, if any.
  \<^verbatim>\<open>logging.debug(fmt, arg)\<close> returns nothing (\<open>None\<close>) or raises (\<open>Some\<close> the exception).\<close>

record ('ir, 'pm, 'libs, 'jit) env =
  PassManager_parse :: "string \<Rightarrow> exn + 'pm"
  PassManager_new :: "exn + 'pm"
  PassManager_run :: "'pm \<Rightarrow> 'ir \<Rightarrow> 'ir \<times> exn option"
  get_runtime_libs :: "exn + 'libs"
  get_refjit :: "('ir, 'pm, 'libs, 'jit) refjit_obj"
  debug_enabled :: bool
  logging_debug :: "string \<Rightarrow> 'ir logarg \<Rightarrow> exn option"

text \<open>The fields of a \<^verbatim>\<open>CompilerBackend\<close> object (\<^verbatim>\<open>_refjit\<close>, \<^verbatim>\<open>_debug\<close>).\<close>

record ('ir, 'pm, 'libs, 'jit) CompilerBackend =
  refjit :: "('ir, 'pm, 'libs, 'jit) refjit_obj"
  debug :: bool

record ('ir, 'pm, 'libs, 'jit) state =
  self :: "('ir, 'pm, 'libs, 'jit) CompilerBackend"
  heap :: "mref \<Rightarrow> 'ir"
  trace :: "('ir, 'pm, 'libs) call list"

subsection \<open>Sequencing with exceptions\<close>

definition and_then ::
  "('s \<Rightarrow> (exn + 'a) \<times> 's) \<Rightarrow> ('a \<Rightarrow> 's \<Rightarrow> (exn + 'b) \<times> 's) \<Rightarrow> 's \<Rightarrow> (exn + 'b) \<times> 's" where
  "and_then f g s = (case f s of (Inl e, s') \<Rightarrow> (Inl e, s') | (Inr a, s') \<Rightarrow> g a s')"

definition emit ::
  "('ir, 'pm, 'libs) call \<Rightarrow> ('ir, 'pm, 'libs, 'jit) state \<Rightarrow> ('ir, 'pm, 'libs, 'jit) state" where
  "emit c s = s\<lparr>trace := trace s @ [c]\<rparr>"

text \<open>\<^verbatim>\<open>with module.context as context: body\<close>. The context is entered, the body runs, the
  context is left also when the body raised, and the exception goes on.\<close>

definition with_context ::
  "mref \<Rightarrow> (('ir, 'pm, 'libs, 'jit) state \<Rightarrow> (exn + 'a) \<times> ('ir, 'pm, 'libs, 'jit) state)
   \<Rightarrow> ('ir, 'pm, 'libs, 'jit) state \<Rightarrow> (exn + 'a) \<times> ('ir, 'pm, 'libs, 'jit) state" where
  "with_context m body s =
     (case body (emit (ContextEnter m) s) of (r, s') \<Rightarrow> (r, emit (ContextExit m) s'))"

text \<open>\<^verbatim>\<open>if self._debug: logging.debug(fmt, arg)\<close>.\<close>

definition debug_log ::
  "('ir, 'pm, 'libs, 'jit) env \<Rightarrow> string \<Rightarrow> 'ir logarg \<Rightarrow> ('ir, 'pm, 'libs, 'jit) state
   \<Rightarrow> (exn + unit) \<times> ('ir, 'pm, 'libs, 'jit) state" where
  "debug_log E fmt arg s =
     (if debug (self s)
      then ((case logging_debug E fmt arg of None \<Rightarrow> Inr () | Some e \<Rightarrow> Inl e),
            emit (LoggingDebug fmt arg) s)
      else (Inr (), s))"

definition debug_log_module ::
  "('ir, 'pm, 'libs, 'jit) env \<Rightarrow> string \<Rightarrow> mref \<Rightarrow> ('ir, 'pm, 'libs, 'jit) state
   \<Rightarrow> (exn + unit) \<times> ('ir, 'pm, 'libs, 'jit) state" where
  "debug_log_module E fmt m s = debug_log E fmt (ModuleArg (heap s m)) s"

definition call_parse ::
  "('ir, 'pm, 'libs, 'jit) env \<Rightarrow> string \<Rightarrow> ('ir, 'pm, 'libs, 'jit) state
   \<Rightarrow> (exn + 'pm) \<times> ('ir, 'pm, 'libs, 'jit) state" where
  "call_parse E str s = (PassManager_parse E str, emit (PassManagerParse str) s)"

definition call_new ::
  "('ir, 'pm, 'libs, 'jit) env \<Rightarrow> ('ir, 'pm, 'libs, 'jit) state
   \<Rightarrow> (exn + 'pm) \<times> ('ir, 'pm, 'libs, 'jit) state" where
  "call_new E s = (PassManager_new E, emit PassManagerNew s)"

definition call_run ::
  "('ir, 'pm, 'libs, 'jit) env \<Rightarrow> 'pm \<Rightarrow> mref \<Rightarrow> ('ir, 'pm, 'libs, 'jit) state
   \<Rightarrow> (exn + unit) \<times> ('ir, 'pm, 'libs, 'jit) state" where
  "call_run E pm m s =
     (case PassManager_run E pm (heap s m) of
        (ir', r) \<Rightarrow>
          ((case r of None \<Rightarrow> Inr () | Some e \<Rightarrow> Inl e),
           emit (PassManagerRun pm m) (s\<lparr>heap := (heap s)(m := ir')\<rparr>)))"

definition call_build ::
  "'pm \<Rightarrow> ('ir, 'pm, 'libs, 'jit) state \<Rightarrow> (exn + 'pm) \<times> ('ir, 'pm, 'libs, 'jit) state" where
  "call_build pm s =
     (build_backend_compilation_pipeline (refjit (self s)) pm,
      emit (BuildBackendCompilationPipeline pm) s)"

definition call_libs ::
  "('ir, 'pm, 'libs, 'jit) env \<Rightarrow> ('ir, 'pm, 'libs, 'jit) state
   \<Rightarrow> (exn + 'libs) \<times> ('ir, 'pm, 'libs, 'jit) state" where
  "call_libs E s = (get_runtime_libs E, emit GetRuntimeLibs s)"

definition call_from_compiled ::
  "mref \<Rightarrow> 'libs \<Rightarrow> ('ir, 'pm, 'libs, 'jit) state
   \<Rightarrow> (exn + 'jit) \<times> ('ir, 'pm, 'libs, 'jit) state" where
  "call_from_compiled m libs s =
     (from_compiled_module (refjit (self s)) (heap s m) libs,
      emit (FromCompiledModule m libs) s)"

subsection \<open>TorchJitModuleInvoker\<close>

text \<open>A Python value passed to an invocation: a \<^verbatim>\<open>torch.Tensor\<close> or anything else
  (a numpy array among them).\<close>

datatype ('t, 'v) arg = Tensor 't | Other 'v

text \<open>The invoker object; the inherited constructor keeps the JIT module it is given.\<close>

datatype 'jit TorchJitModuleInvoker = TorchJitModuleInvoker (held_jit_module: 'jit)

text \<open>\<^verbatim>\<open>Tensor.numpy()\<close> and the parent's \<^verbatim>\<open>__getitem__\<close>; both may raise, and so may the
  invoker the parent returns.\<close>

record ('t, 'v, 'jit, 'r) torch_env =
  Tensor_numpy :: "'t \<Rightarrow> exn + 'v"
  JitModuleInvoker_getitem ::
    "'jit TorchJitModuleInvoker \<Rightarrow> string \<Rightarrow> exn + (('t, 'v) arg list \<Rightarrow> exn + 'r)"

text \<open>\<^verbatim>\<open>arg.numpy() if isinstance(arg, torch.Tensor) else arg\<close>.\<close>

fun convert_arg :: "('t \<Rightarrow> exn + 'v) \<Rightarrow> ('t, 'v) arg \<Rightarrow> exn + ('t, 'v) arg" where
  "convert_arg numpy (Tensor t) = (case numpy t of Inl e \<Rightarrow> Inl e | Inr a \<Rightarrow> Inr (Other a))"
| "convert_arg numpy (Other v) = Inr (Other v)"

text \<open>An exception that leaves the body of a generator: a \<^verbatim>\<open>StopIteration\<close> reaches the
  consumer as a \<^verbatim>\<open>RuntimeError\<close>, any other exception as it is.\<close>

fun generator_raises :: "exn \<Rightarrow> exn" where
  "generator_raises StopIteration = RuntimeError ''generator raised StopIteration''"
| "generator_raises e = e"

text \<open>The generator expression under \<^verbatim>\<open>tuple(...)\<close>: left to right, the first exception
  ends it.\<close>

fun convert_args :: "('t \<Rightarrow> exn + 'v) \<Rightarrow> ('t, 'v) arg list \<Rightarrow> exn + ('t, 'v) arg list" where
  "convert_args numpy [] = Inr []"
| "convert_args numpy (a # as) =
     (case convert_arg numpy a of
        Inl e \<Rightarrow> Inl (generator_raises e)
      | Inr a' \<Rightarrow> (case convert_args numpy as of Inl e \<Rightarrow> Inl e | Inr as' \<Rightarrow> Inr (a' # as')))"

definition TorchJitModuleInvoker_getitem ::
  "('t, 'v, 'jit, 'r) torch_env \<Rightarrow> 'jit TorchJitModuleInvoker \<Rightarrow> string
   \<Rightarrow> exn + (('t, 'v) arg list \<Rightarrow> exn + 'r)" where
  "TorchJitModuleInvoker_getitem T this function_name =
     (case JitModuleInvoker_getitem T this function_name of
        Inl e \<Rightarrow> Inl e
      | Inr numpy_invoke \<Rightarrow>
          Inr (\<lambda>args. case convert_args (Tensor_numpy T) args of
                         Inl e \<Rightarrow> Inl e
                       | Inr args' \<Rightarrow> numpy_invoke args'))"

subsection \<open>CompilerBackend\<close>

definition CompilerBackend_init ::
  "('ir, 'pm, 'libs, 'jit) env \<Rightarrow> ('ir, 'pm, 'libs, 'jit) CompilerBackend" where
  "CompilerBackend_init E = \<lparr>refjit = get_refjit E, debug = debug_enabled E\<rparr>"

definition compile ::
  "('ir, 'pm, 'libs, 'jit) env \<Rightarrow> mref \<Rightarrow> ('ir, 'pm, 'libs, 'jit) state
   \<Rightarrow> (exn + 'jit) \<times> ('ir, 'pm, 'libs, 'jit) state" where
  "compile E imported_module =
     and_then
       (with_context imported_module
         (and_then (debug_log_module E (''Initial PyTorch IR:'' @ [CHR 0x0A] @ ''{}'') imported_module) (\<lambda>_.
          let pipeline_str = join '','' TORCH_TO_TCF_PASSES in
          and_then (debug_log E (''Running Torch->TCF pipeline '' @ [CHR 0x27] @ ''{}'' @ [CHR 0x27])
                      (StrArg pipeline_str)) (\<lambda>_.
          and_then (call_parse E pipeline_str) (\<lambda>pm.
          and_then (call_run E pm imported_module) (\<lambda>_.
          and_then (debug_log_module E (''TCF IR:'' @ [CHR 0x0A] @ ''{}'') imported_module) (\<lambda>_.
          and_then (call_new E) (\<lambda>pm.
          and_then (call_build pm) (\<lambda>pm.
          and_then (call_run E pm imported_module) (\<lambda>_.
          debug_log_module E (''Backend IR:'' @ [CHR 0x0A] @ ''{}'') imported_module))))))))))
       (\<lambda>_. and_then (call_libs E) (\<lambda>libs. call_from_compiled imported_module libs))"

definition compile_object_graph ::
  "('ir, 'pm, 'libs, 'jit) env \<Rightarrow> mref \<Rightarrow> ('ir, 'pm, 'libs, 'jit) state
   \<Rightarrow> (exn + 'jit) \<times> ('ir, 'pm, 'libs, 'jit) state" where
  "compile_object_graph E imported_module =
     and_then
       (with_context imported_module
         (and_then (debug_log_module E (''Initial PyTorch object graph IR:'' @ [CHR 0x0A] @ ''{}'')
                      imported_module) (\<lambda>_.
          let pipeline_str = join '','' OBJECT_GRAPH_LOWERING_PASSES in
          and_then (debug_log E (''Running Torch object graph lowering pipeline ''
                               @ [CHR 0x27] @ ''{}'' @ [CHR 0x27]) (StrArg pipeline_str)) (\<lambda>_.
          and_then (call_parse E pipeline_str) (\<lambda>pm.
          call_run E pm imported_module)))))
       (\<lambda>_. compile E imported_module)"

definition load ::
  "'jit \<Rightarrow> ('ir, 'pm, 'libs, 'jit) state
   \<Rightarrow> 'jit TorchJitModuleInvoker \<times> ('ir, 'pm, 'libs, 'jit) state" where
  "load jit_module s = (TorchJitModuleInvoker jit_module, s)"

text \<open>A caller's sequence of method calls on the one backend object.\<close>

datatype 'jit method_call = Compile mref | CompileObjectGraph mref | Load 'jit

fun invoke_method ::
  "('ir, 'pm, 'libs, 'jit) env \<Rightarrow> 'jit method_call \<Rightarrow> ('ir, 'pm, 'libs, 'jit) state
   \<Rightarrow> ('ir, 'pm, 'libs, 'jit) state" where
  "invoke_method E (Compile m) s = snd (compile E m s)"
| "invoke_method E (CompileObjectGraph m) s = snd (compile_object_graph E m s)"
| "invoke_method E (Load j) s = snd (load j s)"

fun invoke_methods ::
  "('ir, 'pm, 'libs, 'jit) env \<Rightarrow> 'jit method_call list \<Rightarrow> ('ir, 'pm, 'libs, 'jit) state
   \<Rightarrow> ('ir, 'pm, 'libs, 'jit) state" where
  "invoke_methods E [] s = s"
| "invoke_methods E (c # cs) s = invoke_methods E cs (invoke_method E c s)"

subsection \<open>Reading the trace\<close>

fun is_logging :: "('ir, 'pm, 'libs) call \<Rightarrow> bool" where
  "is_logging (LoggingDebug fmt arg) = True"
| "is_logging c = False"

definition without_logging :: "('ir, 'pm, 'libs) call list \<Rightarrow> ('ir, 'pm, 'libs) call list" where
  "without_logging cs = filter (\<lambda>c. \<not> is_logging c) cs"

text \<open>The calls that are handed the module to rewrite it or to build the JIT module from it.\<close>

fun consumes_module :: "('ir, 'pm, 'libs) call \<Rightarrow> bool" where
  "consumes_module (PassManagerRun pm m) = True"
| "consumes_module (FromCompiledModule m libs) = True"
| "consumes_module c = False"

subsection \<open>Properties of state transformers\<close>

text \<open>A transformer keeps the backend object's fields; two states agree when they differ at
  most in the debug flag and in logging calls; a transformer is oblivious to the debug flag when
  it maps agreeing states to equal results and agreeing states.\<close>

definition keeps_self :: "(('ir, 'pm, 'libs, 'jit) state \<Rightarrow> 'a \<times> ('ir, 'pm, 'libs, 'jit) state) \<Rightarrow> bool" where
  "keeps_self f \<longleftrightarrow> (\<forall>s. self (snd (f s)) = self s)"

definition agree :: "('ir, 'pm, 'libs, 'jit) state \<Rightarrow> ('ir, 'pm, 'libs, 'jit) state \<Rightarrow> bool" where
  "agree s t \<longleftrightarrow> heap s = heap t \<and> refjit (self s) = refjit (self t)
     \<and> without_logging (trace s) = without_logging (trace t)"

definition debug_oblivious ::
  "(('ir, 'pm, 'libs, 'jit) state \<Rightarrow> 'a \<times> ('ir, 'pm, 'libs, 'jit) state) \<Rightarrow> bool" where
  "debug_oblivious f \<longleftrightarrow>
     (\<forall>s t. agree s t \<longrightarrow> fst (f s) = fst (f t) \<and> agree (snd (f s)) (snd (f t)))"

subsection \<open>A concrete instance of the collaborators\<close>

text \<open>An IR is the list of pipelines run on it so far, a pass manager is its pipeline string,
  the JIT module is the final IR with the runtime libraries.\<close>

definition example_refjit :: "(string list, string, nat, string list \<times> nat) refjit_obj" where
  "example_refjit =
     \<lparr>build_backend_compilation_pipeline = (\<lambda>pm. Inr (pm @ ''backend'')),
      from_compiled_module = (\<lambda>ir libs. Inr (ir, libs))\<rparr>"

definition example_env :: "(string list, string, nat, string list \<times> nat) env" where
  "example_env =
     \<lparr>PassManager_parse = (\<lambda>str. if str = [] then Inl (Exception ''empty pipeline'') else Inr str),
      PassManager_new = Inr [],
      PassManager_run = (\<lambda>pm ir. if pm = ''fail'' then (ir, Some (Exception ''pass failed''))
                                  else (ir @ [pm], None)),
      get_runtime_libs = Inr 7,
      get_refjit = example_refjit,
      debug_enabled = False,
      logging_debug = (\<lambda>fmt arg. None)\<rparr>"

text \<open>The same collaborators with a logger that raises.\<close>

definition failing_logger_env :: "(string list, string, nat, string list \<times> nat) env" where
  "failing_logger_env =
     example_env\<lparr>logging_debug := (\<lambda>fmt arg. Some (Exception ''log failed''))\<rparr>"

definition example_state ::
  "bool \<Rightarrow> (string list, string, nat, string list \<times> nat) state" where
  "example_state d =
     \<lparr>self = CompilerBackend_init (example_env\<lparr>debug_enabled := d\<rparr>),
      heap = (\<lambda>r. []),
      trace = []\<rparr>"

text \<open>Tensors and arrays are numbers, the array of tensor \<open>t\<close> is \<open>t + 100\<close>, tensor \<open>0\<close>
  cannot be converted and tensor \<open>1000\<close> raises \<^verbatim>\<open>StopIteration\<close>; the parent's invoker
  returns what it was called with.\<close>

definition example_torch_env ::
  "(nat, nat, nat, string \<times> nat \<times> (nat, nat) arg list) torch_env" where
  "example_torch_env =
     \<lparr>Tensor_numpy = (\<lambda>t. if t = 0 then Inl (Exception ''requires grad'')
                          else if t = 1000 then Inl StopIteration else Inr (t + 100)),
      JitModuleInvoker_getitem =
        (\<lambda>this function_name. Inr (\<lambda>args. Inr (function_name, held_jit_module this, args)))\<rparr>"

section \<open>Auxiliary lemmas\<close>

lemmas exec_defs = compile_def compile_object_graph_def and_then_def with_context_def
  debug_log_def debug_log_module_def call_parse_def call_new_def call_run_def call_build_def
  call_libs_def call_from_compiled_def emit_def Let_def

lemmas example_defs = example_env_def example_state_def example_refjit_def CompilerBackend_init_def

lemma frontend_pipeline_str: "join '','' TORCH_TO_TCF_PASSES = ''func(aten-recognize-kernels),numpy-public-functions-to-tensor,func(numpy-array-to-tensor),func(torch-refine-types),numpy-refine-public-return,func(numpy-array-to-tensor),func(convert-aten-to-tcf)''"
  by (simp add: TORCH_TO_TCF_PASSES_def)

lemma object_graph_pipeline_str: "join '','' OBJECT_GRAPH_LOWERING_PASSES = ''torch-globalize-pipeline,symbol-dce,torch-adjust-calling-conventions''"
  by (simp add: OBJECT_GRAPH_LOWERING_PASSES_def)

lemma compile_ok:
  assumes "PassManager_parse E (join '','' TORCH_TO_TCF_PASSES) = Inr pm1"
    and "PassManager_run E pm1 (heap s m) = (ir1, None)"
    and "PassManager_new E = Inr pm0"
    and "build_backend_compilation_pipeline (refjit (self s)) pm0 = Inr pm2"
    and "PassManager_run E pm2 ir1 = (ir2, None)"
    and "get_runtime_libs E = Inr libs"
    and "debug (self s) \<longrightarrow> (\<forall>fmt arg. logging_debug E fmt arg = None)"
  shows "compile E m s =
     (from_compiled_module (refjit (self s)) ir2 libs,
      s\<lparr>heap := (heap s)(m := ir2),
        trace := trace s @ [ContextEnter m]
          @ (if debug (self s)
             then [LoggingDebug (''Initial PyTorch IR:'' @ [CHR 0x0A] @ ''{}'') (ModuleArg (heap s m)),
                   LoggingDebug (''Running Torch->TCF pipeline '' @ [CHR 0x27] @ ''{}'' @ [CHR 0x27])
                     (StrArg (join '','' TORCH_TO_TCF_PASSES))]
             else [])
          @ [PassManagerParse (join '','' TORCH_TO_TCF_PASSES), PassManagerRun pm1 m]
          @ (if debug (self s) then [LoggingDebug (''TCF IR:'' @ [CHR 0x0A] @ ''{}'') (ModuleArg ir1)] else [])
          @ [PassManagerNew, BuildBackendCompilationPipeline pm0, PassManagerRun pm2 m]
          @ (if debug (self s) then [LoggingDebug (''Backend IR:'' @ [CHR 0x0A] @ ''{}'') (ModuleArg ir2)] else [])
          @ [ContextExit m, GetRuntimeLibs, FromCompiledModule m libs]\<rparr>)"
  using assms by (simp_all add: exec_defs)


lemma without_logging_simps [simp]:
  "without_logging [] = []"
  "without_logging (xs @ ys) = without_logging xs @ without_logging ys"
  "without_logging (c # cs) = (if is_logging c then without_logging cs else c # without_logging cs)"
  by (simp_all add: without_logging_def)

lemma compile_parse_raises:
  assumes "PassManager_parse E (join '','' TORCH_TO_TCF_PASSES) = Inl e"
    and "debug (self s) \<longrightarrow> (\<forall>fmt arg. logging_debug E fmt arg = None)"
  shows "fst (compile E m s) = Inl e"
    and "heap (snd (compile E m s)) = heap s"
    and "without_logging (trace (snd (compile E m s))) = without_logging (trace s) @
           [ContextEnter m, PassManagerParse (join '','' TORCH_TO_TCF_PASSES), ContextExit m]"
  using assms by (simp_all add: exec_defs)

lemma compile_run1_raises:
  assumes "PassManager_parse E (join '','' TORCH_TO_TCF_PASSES) = Inr pm1"
    and "PassManager_run E pm1 (heap s m) = (ir1, Some e)"
    and "debug (self s) \<longrightarrow> (\<forall>fmt arg. logging_debug E fmt arg = None)"
  shows "fst (compile E m s) = Inl e"
    and "heap (snd (compile E m s)) = (heap s)(m := ir1)"
    and "without_logging (trace (snd (compile E m s))) = without_logging (trace s) @
           [ContextEnter m, PassManagerParse (join '','' TORCH_TO_TCF_PASSES),
            PassManagerRun pm1 m, ContextExit m]"
  using assms by (simp_all add: exec_defs)

lemma compile_run2_raises:
  assumes "PassManager_parse E (join '','' TORCH_TO_TCF_PASSES) = Inr pm1"
    and "PassManager_run E pm1 (heap s m) = (ir1, None)"
    and "PassManager_new E = Inr pm0"
    and "build_backend_compilation_pipeline (refjit (self s)) pm0 = Inr pm2"
    and "PassManager_run E pm2 ir1 = (ir2, Some e)"
    and "debug (self s) \<longrightarrow> (\<forall>fmt arg. logging_debug E fmt arg = None)"
  shows "fst (compile E m s) = Inl e"
    and "heap (snd (compile E m s)) = (heap s)(m := ir2)"
    and "without_logging (trace (snd (compile E m s))) = without_logging (trace s) @
           [ContextEnter m, PassManagerParse (join '','' TORCH_TO_TCF_PASSES),
            PassManagerRun pm1 m, PassManagerNew, BuildBackendCompilationPipeline pm0,
            PassManagerRun pm2 m, ContextExit m]"
  using assms by (simp_all add: exec_defs)

lemma object_graph_parse_raises:
  assumes "PassManager_parse E (join '','' OBJECT_GRAPH_LOWERING_PASSES) = Inl e"
    and "debug (self s) \<longrightarrow> (\<forall>fmt arg. logging_debug E fmt arg = None)"
  shows "fst (compile_object_graph E m s) = Inl e"
    and "heap (snd (compile_object_graph E m s)) = heap s"
    and "without_logging (trace (snd (compile_object_graph E m s))) = without_logging (trace s) @
           [ContextEnter m, PassManagerParse (join '','' OBJECT_GRAPH_LOWERING_PASSES), ContextExit m]"
  using assms by (simp_all add: exec_defs)

lemma object_graph_run_raises:
  assumes "PassManager_parse E (join '','' OBJECT_GRAPH_LOWERING_PASSES) = Inr pmg"
    and "PassManager_run E pmg (heap s m) = (ir0, Some e)"
    and "debug (self s) \<longrightarrow> (\<forall>fmt arg. logging_debug E fmt arg = None)"
  shows "fst (compile_object_graph E m s) = Inl e"
    and "heap (snd (compile_object_graph E m s)) = (heap s)(m := ir0)"
    and "without_logging (trace (snd (compile_object_graph E m s))) = without_logging (trace s) @
           [ContextEnter m, PassManagerParse (join '','' OBJECT_GRAPH_LOWERING_PASSES),
            PassManagerRun pmg m, ContextExit m]"
  using assms by (simp_all add: exec_defs)

lemma object_graph_then_compile:
  assumes "PassManager_parse E (join '','' OBJECT_GRAPH_LOWERING_PASSES) = Inr pmg"
    and "PassManager_run E pmg (heap s m) = (ir0, None)"
    and "debug (self s) \<longrightarrow> (\<forall>fmt arg. logging_debug E fmt arg = None)"
  shows "compile_object_graph E m s =
     compile E m
       (s\<lparr>heap := (heap s)(m := ir0),
          trace := trace s @ [ContextEnter m]
            @ (if debug (self s)
               then [LoggingDebug (''Initial PyTorch object graph IR:'' @ [CHR 0x0A] @ ''{}'')
                       (ModuleArg (heap s m)),
                     LoggingDebug (''Running Torch object graph lowering pipeline ''
                                   @ [CHR 0x27] @ ''{}'' @ [CHR 0x27])
                       (StrArg (join '','' OBJECT_GRAPH_LOWERING_PASSES))]
               else [])
            @ [PassManagerParse (join '','' OBJECT_GRAPH_LOWERING_PASSES),
               PassManagerRun pmg m, ContextExit m]\<rparr>)"
  using assms
  by (simp add: compile_object_graph_def and_then_def with_context_def
      debug_log_def debug_log_module_def call_parse_def call_run_def emit_def Let_def)

lemma emit_simps:
  "self (emit c s) = self s"
  "heap (emit c s) = heap s"
  "trace (emit c s) = trace s @ [c]"
  by (simp_all add: emit_def)

lemma keeps_self_and_then:
  assumes f: "keeps_self f" and g: "\<And>a. keeps_self (g a)"
  shows "keeps_self (and_then f g)"
  unfolding keeps_self_def
proof
  fix s
  obtain r s' where fs: "f s = (r, s')" by (cases "f s")
  from f have s': "self s' = self s"
    unfolding keeps_self_def using fs by (metis snd_conv)
  show "self (snd (and_then f g s)) = self s"
  proof (cases r)
    case (Inl e)
    then show ?thesis by (simp add: and_then_def fs s')
  next
    case (Inr a)
    from g [of a] have "self (snd (g a s')) = self s'" by (simp add: keeps_self_def)
    with Inr show ?thesis by (simp add: and_then_def fs s')
  qed
qed

lemma keeps_self_with_context:
  assumes "keeps_self body"
  shows "keeps_self (with_context m body)"
  unfolding keeps_self_def
proof
  fix s
  obtain r s' where b: "body (emit (ContextEnter m) s) = (r, s')"
    by (cases "body (emit (ContextEnter m) s)")
  from assms have "self s' = self (emit (ContextEnter m) s)"
    unfolding keeps_self_def using b by (metis snd_conv)
  then show "self (snd (with_context m body s)) = self s"
    by (simp add: with_context_def b emit_simps)
qed

lemma keeps_self_prims:
  "keeps_self (debug_log E fmt arg)"
  "keeps_self (debug_log_module E fmt m)"
  "keeps_self (call_parse E str)"
  "keeps_self (call_new E)"
  "keeps_self (call_run E pm m)"
  "keeps_self (call_build pm)"
  "keeps_self (call_libs E)"
  "keeps_self (call_from_compiled m libs)"
  by (simp_all add: keeps_self_def debug_log_def debug_log_module_def call_parse_def call_new_def
      call_run_def call_build_def call_libs_def call_from_compiled_def emit_def split: prod.splits)

lemma keeps_self_compile: "keeps_self (compile E m)"
  unfolding compile_def Let_def
  by (intro keeps_self_and_then keeps_self_with_context keeps_self_prims)

lemma keeps_self_compile_object_graph: "keeps_self (compile_object_graph E m)"
  unfolding compile_object_graph_def Let_def
  by (intro keeps_self_and_then keeps_self_with_context keeps_self_prims keeps_self_compile)

lemma invoke_method_self: "self (invoke_method E c s) = self s"
  using keeps_self_compile [of E] keeps_self_compile_object_graph [of E]
  by (cases c) (simp_all add: load_def keeps_self_def)

lemma invoke_methods_self: "self (invoke_methods E cs s) = self s"
  by (induction cs arbitrary: s) (simp_all add: invoke_method_self)


lemma agree_emit: "agree s t \<Longrightarrow> agree (emit c s) (emit c t)"
  by (simp add: agree_def emit_def)

lemma debug_oblivious_and_then:
  assumes f: "debug_oblivious f" and g: "\<And>a. debug_oblivious (g a)"
  shows "debug_oblivious (and_then f g)"
  unfolding debug_oblivious_def
proof (intro allI impI)
  fix s t :: "('a, 'b, 'c, 'd) state"
  assume st: "agree s t"
  obtain r s' where fs: "f s = (r, s')" by (cases "f s")
  obtain r' t' where ft: "f t = (r', t')" by (cases "f t")
  from f st have "fst (f s) = fst (f t) \<and> agree (snd (f s)) (snd (f t))"
    unfolding debug_oblivious_def by blast
  with fs ft have r: "r' = r" and a: "agree s' t'" by simp_all
  show "fst (and_then f g s) = fst (and_then f g t)
        \<and> agree (snd (and_then f g s)) (snd (and_then f g t))"
  proof (cases r)
    case (Inl e)
    with a show ?thesis by (simp add: and_then_def fs ft r)
  next
    case (Inr x)
    from g [of x] a have "fst (g x s') = fst (g x t') \<and> agree (snd (g x s')) (snd (g x t'))"
      unfolding debug_oblivious_def by blast
    with Inr show ?thesis by (simp add: and_then_def fs ft r)
  qed
qed

lemma debug_oblivious_with_context:
  assumes "debug_oblivious body"
  shows "debug_oblivious (with_context m body)"
  unfolding debug_oblivious_def
proof (intro allI impI)
  fix s t :: "('a, 'b, 'c, 'd) state"
  assume st: "agree s t"
  let ?s = "emit (ContextEnter m) s" and ?t = "emit (ContextEnter m) t"
  obtain r s' where bs: "body ?s = (r, s')" by (cases "body ?s")
  obtain r' t' where bt: "body ?t = (r', t')" by (cases "body ?t")
  from st have "agree ?s ?t" by (rule agree_emit)
  with assms have "fst (body ?s) = fst (body ?t) \<and> agree (snd (body ?s)) (snd (body ?t))"
    unfolding debug_oblivious_def by blast
  with bs bt have "r' = r" and "agree s' t'" by simp_all
  then show "fst (with_context m body s) = fst (with_context m body t)
        \<and> agree (snd (with_context m body s)) (snd (with_context m body t))"
    by (simp add: with_context_def bs bt agree_emit)
qed

lemma debug_oblivious_prims:
  "debug_oblivious (call_parse E str)"
  "debug_oblivious (call_new E)"
  "debug_oblivious (call_run E pm m)"
  "debug_oblivious (call_build pm)"
  "debug_oblivious (call_libs E)"
  "debug_oblivious (call_from_compiled m libs)"
  by (simp_all add: debug_oblivious_def agree_def call_parse_def call_new_def
      call_run_def call_build_def call_libs_def call_from_compiled_def emit_def split: prod.splits)

lemma debug_oblivious_debug_log:
  assumes "\<forall>fmt arg. logging_debug E fmt arg = None"
  shows "debug_oblivious (debug_log E fmt arg)"
    and "debug_oblivious (debug_log_module E fmt m)"
  using assms
  by (simp_all add: debug_oblivious_def agree_def debug_log_module_def debug_log_def emit_def)

lemma debug_oblivious_compile:
  assumes "\<forall>fmt arg. logging_debug E fmt arg = None"
  shows "debug_oblivious (compile E m)"
  unfolding compile_def Let_def
  by (intro debug_oblivious_and_then debug_oblivious_with_context debug_oblivious_prims
      debug_oblivious_debug_log [OF assms])

lemma debug_oblivious_compile_object_graph:
  assumes "\<forall>fmt arg. logging_debug E fmt arg = None"
  shows "debug_oblivious (compile_object_graph E m)"
  unfolding compile_object_graph_def Let_def
  by (intro debug_oblivious_and_then debug_oblivious_with_context debug_oblivious_prims
      debug_oblivious_debug_log [OF assms] debug_oblivious_compile [OF assms])

lemma object_graph_then_compile_ex:
  assumes "PassManager_parse E (join '','' OBJECT_GRAPH_LOWERING_PASSES) = Inr pmg"
    and "PassManager_run E pmg (heap s m) = (ir0, None)"
    and "debug (self s) \<longrightarrow> (\<forall>fmt arg. logging_debug E fmt arg = None)"
  shows "\<exists>s1. compile_object_graph E m s = compile E m s1
            \<and> heap s1 = (heap s)(m := ir0) \<and> self s1 = self s
            \<and> without_logging (trace s1) = without_logging (trace s) @
                [ContextEnter m, PassManagerParse (join '','' OBJECT_GRAPH_LOWERING_PASSES),
                 PassManagerRun pmg m, ContextExit m]"
  by (subst object_graph_then_compile [OF assms], rule exI, rule conjI, rule refl) simp

lemma object_graph_compile_parse_raises:
  assumes "PassManager_parse E (join '','' OBJECT_GRAPH_LOWERING_PASSES) = Inr pmg"
    and "PassManager_run E pmg (heap s m) = (ir0, None)"
    and "PassManager_parse E (join '','' TORCH_TO_TCF_PASSES) = Inl e"
    and "debug (self s) \<longrightarrow> (\<forall>fmt arg. logging_debug E fmt arg = None)"
  shows "fst (compile_object_graph E m s) = Inl e
       \<and> without_logging (trace (snd (compile_object_graph E m s))) = without_logging (trace s) @
           [ContextEnter m, PassManagerParse (join '','' OBJECT_GRAPH_LOWERING_PASSES),
            PassManagerRun pmg m, ContextExit m,
            ContextEnter m, PassManagerParse (join '','' TORCH_TO_TCF_PASSES), ContextExit m]"
proof -
  from object_graph_then_compile_ex [OF assms(1,2) assms(4)] obtain s1 where
    eq: "compile_object_graph E m s = compile E m s1"
    and h: "heap s1 = (heap s)(m := ir0)" and f: "self s1 = self s"
    and t: "without_logging (trace s1) = without_logging (trace s) @
                [ContextEnter m, PassManagerParse (join '','' OBJECT_GRAPH_LOWERING_PASSES),
                 PassManagerRun pmg m, ContextExit m]"
    by blast
  have l: "debug (self s1) \<longrightarrow> (\<forall>fmt arg. logging_debug E fmt arg = None)"
    using assms(4) by (simp add: f)
  from compile_parse_raises [OF assms(3) l, of m] show ?thesis
    by (simp add: eq t)
qed

lemma object_graph_compile_run1_raises:
  assumes "PassManager_parse E (join '','' OBJECT_GRAPH_LOWERING_PASSES) = Inr pmg"
    and "PassManager_run E pmg (heap s m) = (ir0, None)"
    and "PassManager_parse E (join '','' TORCH_TO_TCF_PASSES) = Inr pm1"
    and "PassManager_run E pm1 ir0 = (ir1, Some e)"
    and "debug (self s) \<longrightarrow> (\<forall>fmt arg. logging_debug E fmt arg = None)"
  shows "fst (compile_object_graph E m s) = Inl e
       \<and> without_logging (trace (snd (compile_object_graph E m s))) = without_logging (trace s) @
           [ContextEnter m, PassManagerParse (join '','' OBJECT_GRAPH_LOWERING_PASSES),
            PassManagerRun pmg m, ContextExit m,
            ContextEnter m, PassManagerParse (join '','' TORCH_TO_TCF_PASSES),
            PassManagerRun pm1 m, ContextExit m]"
proof -
  from object_graph_then_compile_ex [OF assms(1,2) assms(5)] obtain s1 where
    eq: "compile_object_graph E m s = compile E m s1"
    and h: "heap s1 = (heap s)(m := ir0)" and f: "self s1 = self s"
    and t: "without_logging (trace s1) = without_logging (trace s) @
                [ContextEnter m, PassManagerParse (join '','' OBJECT_GRAPH_LOWERING_PASSES),
                 PassManagerRun pmg m, ContextExit m]"
    by blast
  have r: "PassManager_run E pm1 (heap s1 m) = (ir1, Some e)"
    using assms(4) by (simp add: h)
  have l: "debug (self s1) \<longrightarrow> (\<forall>fmt arg. logging_debug E fmt arg = None)"
    using assms(5) by (simp add: f)
  from compile_run1_raises [OF assms(3) r l] show ?thesis
    by (simp add: eq t)
qed

lemma object_graph_compile_run2_raises:
  assumes "PassManager_parse E (join '','' OBJECT_GRAPH_LOWERING_PASSES) = Inr pmg"
    and "PassManager_run E pmg (heap s m) = (ir0, None)"
    and "PassManager_parse E (join '','' TORCH_TO_TCF_PASSES) = Inr pm1"
    and "PassManager_run E pm1 ir0 = (ir1, None)"
    and "PassManager_new E = Inr pm0"
    and "build_backend_compilation_pipeline (refjit (self s)) pm0 = Inr pm2"
    and "PassManager_run E pm2 ir1 = (ir2, Some e)"
    and "debug (self s) \<longrightarrow> (\<forall>fmt arg. logging_debug E fmt arg = None)"
  shows "fst (compile_object_graph E m s) = Inl e
       \<and> without_logging (trace (snd (compile_object_graph E m s))) = without_logging (trace s) @
           [ContextEnter m, PassManagerParse (join '','' OBJECT_GRAPH_LOWERING_PASSES),
            PassManagerRun pmg m, ContextExit m,
            ContextEnter m, PassManagerParse (join '','' TORCH_TO_TCF_PASSES),
            PassManagerRun pm1 m, PassManagerNew, BuildBackendCompilationPipeline pm0,
            PassManagerRun pm2 m, ContextExit m]"
proof -
  from object_graph_then_compile_ex [OF assms(1,2) assms(8)] obtain s1 where
    eq: "compile_object_graph E m s = compile E m s1"
    and h: "heap s1 = (heap s)(m := ir0)" and f: "self s1 = self s"
    and t: "without_logging (trace s1) = without_logging (trace s) @
                [ContextEnter m, PassManagerParse (join '','' OBJECT_GRAPH_LOWERING_PASSES),
                 PassManagerRun pmg m, ContextExit m]"
    by blast
  have r: "PassManager_run E pm1 (heap s1 m) = (ir1, None)"
    using assms(4) by (simp add: h)
  have b: "build_backend_compilation_pipeline (refjit (self s1)) pm0 = Inr pm2"
    using assms(6) by (simp add: f)
  have l: "debug (self s1) \<longrightarrow> (\<forall>fmt arg. logging_debug E fmt arg = None)"
    using assms(8) by (simp add: f)
  from compile_run2_raises [OF assms(3) r assms(5) b assms(7) l] show ?thesis
    by (simp add: eq t)
qed

lemma convert_args_map:
  assumes "\<forall>t. Tensor t \<in> set args \<longrightarrow> numpy t = Inr (array_of t)"
  shows "convert_args numpy args =
           Inr (map (\<lambda>a. case a of Tensor t \<Rightarrow> Other (array_of t) | Other v \<Rightarrow> Other v) args)"
  using assms
proof (induction args)
  case Nil
  then show ?case by simp
next
  case (Cons a as)
  then show ?case by (cases a) simp_all
qed

lemma convert_args_StopIteration:
  "convert_args (\<lambda>t. Inl StopIteration) [Tensor t]
     = Inl (RuntimeError ''generator raised StopIteration'')"
  by simp

section \<open>Properties of the wrapper\<close>

text \<open>
  C1. When every collaborator returns normally (the logger too, where debug logging is on),
  \<open>compile\<close> parses the pipeline made of the
  names of \<open>TORCH_TO_TCF_PASSES\<close> joined by commas in tuple order and runs it on the module,
  then constructs a second pass manager, lets the refjit object's
  \<open>build_backend_compilation_pipeline\<close> fill it and runs it on the module, and finally calls
  \<^verbatim>\<open>JITModule.from_compiled_module\<close> with the transformed module and the runtime libraries
  and returns its result. The calls other than \<^verbatim>\<open>logging.debug\<close> are exactly these, in this
  order.
\<close>

theorem compile_frontend_backend_jit:
  assumes "PassManager_parse E (join '','' TORCH_TO_TCF_PASSES) = Inr pm1"
    and "PassManager_run E pm1 (heap s m) = (ir1, None)"
    and "PassManager_new E = Inr pm0"
    and "build_backend_compilation_pipeline (refjit (self s)) pm0 = Inr pm2"
    and "PassManager_run E pm2 ir1 = (ir2, None)"
    and "get_runtime_libs E = Inr libs"
    and "debug (self s) \<longrightarrow> (\<forall>fmt arg. logging_debug E fmt arg = None)"
  shows "join '','' TORCH_TO_TCF_PASSES =
           ''func(aten-recognize-kernels),numpy-public-functions-to-tensor,func(numpy-array-to-tensor),func(torch-refine-types),numpy-refine-public-return,func(numpy-array-to-tensor),func(convert-aten-to-tcf)''
       \<and> fst (compile E m s) = from_compiled_module (refjit (self s)) ir2 libs
       \<and> heap (snd (compile E m s)) m = ir2
       \<and> without_logging (trace (snd (compile E m s))) = without_logging (trace s) @
           [ContextEnter m,
            PassManagerParse (join '','' TORCH_TO_TCF_PASSES),
            PassManagerRun pm1 m,
            PassManagerNew,
            BuildBackendCompilationPipeline pm0,
            PassManagerRun pm2 m,
            ContextExit m,
            GetRuntimeLibs,
            FromCompiledModule m libs]"
  by (simp add: compile_ok [OF assms] frontend_pipeline_str)

theorem compile_frontend_backend_jit_witness:
  "fst (compile example_env 0 (example_state False))
     = Inr ([join '','' TORCH_TO_TCF_PASSES, ''backend''], 7)
   \<and> heap (snd (compile example_env 0 (example_state False))) 0
     = [join '','' TORCH_TO_TCF_PASSES, ''backend'']
   \<and> without_logging (trace (snd (compile example_env 0 (example_state False)))) =
       [ContextEnter 0,
        PassManagerParse (join '','' TORCH_TO_TCF_PASSES),
        PassManagerRun (join '','' TORCH_TO_TCF_PASSES) 0,
        PassManagerNew,
        BuildBackendCompilationPipeline [],
        PassManagerRun ''backend'' 0,
        ContextExit 0,
        GetRuntimeLibs,
        FromCompiledModule 0 7]"
proof -
  have h1: "PassManager_parse example_env (join '','' TORCH_TO_TCF_PASSES)
              = Inr (join '','' TORCH_TO_TCF_PASSES)"
    by (simp add: example_env_def frontend_pipeline_str)
  have h2: "PassManager_run example_env (join '','' TORCH_TO_TCF_PASSES)
              (heap (example_state False) 0) = ([join '','' TORCH_TO_TCF_PASSES], None)"
    by (simp add: example_env_def example_state_def frontend_pipeline_str)
  have h3: "PassManager_new example_env = Inr []"
    by (simp add: example_env_def)
  have h4: "build_backend_compilation_pipeline (refjit (self (example_state False))) []
              = Inr ''backend''"
    by (simp add: example_defs)
  have h5: "PassManager_run example_env ''backend'' [join '','' TORCH_TO_TCF_PASSES]
              = ([join '','' TORCH_TO_TCF_PASSES, ''backend''], None)"
    by (simp add: example_env_def)
  have h6: "get_runtime_libs example_env = Inr 7"
    by (simp add: example_env_def)
  have h7: "debug (self (example_state False))
              \<longrightarrow> (\<forall>fmt arg. logging_debug example_env fmt arg = None)"
    by (simp add: example_defs)
  have t: "trace (example_state False) = []" and r: "from_compiled_module (refjit (self (example_state False))) = (\<lambda>ir libs. Inr (ir, libs))"
    by (simp_all add: example_defs)
  from compile_frontend_backend_jit [OF h1 h2 h3 h4 h5 h6 h7]
  show ?thesis by (simp add: t r)
qed

text \<open>
  C2. When the parent's \<^verbatim>\<open>__getitem__\<close> returns \<open>numpy_invoke\<close> and every tensor among the
  arguments converts (\<open>array_of t\<close> is the array of tensor \<open>t\<close>), the invoker returned by
  \<open>TorchJitModuleInvoker.__getitem__(f)\<close> calls \<open>numpy_invoke\<close> once, on as many arguments in
  the same order, each tensor replaced by its numpy array and every other argument unchanged,
  and returns what \<open>numpy_invoke\<close> returns.
\<close>

theorem invoke_converts_tensors_and_delegates:
  assumes "JitModuleInvoker_getitem T this f = Inr numpy_invoke"
    and "\<forall>t. Tensor t \<in> set args \<longrightarrow> Tensor_numpy T t = Inr (array_of t)"
  shows "\<exists>invoke args'.
           TorchJitModuleInvoker_getitem T this f = Inr invoke
         \<and> invoke args = numpy_invoke args'
         \<and> length args' = length args
         \<and> (\<forall>i<length args.
               args' ! i = (case args ! i of Tensor t \<Rightarrow> Other (array_of t) | Other v \<Rightarrow> Other v))"
proof -
  let ?conv = "\<lambda>a. case a of Tensor t \<Rightarrow> Other (array_of t) | Other v \<Rightarrow> Other v"
  let ?invoke = "\<lambda>args. case convert_args (Tensor_numpy T) args of
                             Inl e \<Rightarrow> Inl e | Inr args' \<Rightarrow> numpy_invoke args'"
  have "TorchJitModuleInvoker_getitem T this f = Inr ?invoke"
    by (simp add: TorchJitModuleInvoker_getitem_def assms(1))
  moreover have "?invoke args = numpy_invoke (map ?conv args)"
    by (simp add: convert_args_map [OF assms(2)])
  moreover have "length (map ?conv args) = length args" by simp
  moreover have "\<forall>i<length args. map ?conv args ! i = ?conv (args ! i)" by simp
  ultimately show ?thesis by blast
qed

theorem invoke_converts_tensors_and_delegates_witness:
  "\<exists>invoke args'.
      TorchJitModuleInvoker_getitem example_torch_env (TorchJitModuleInvoker 5) ''forward'' = Inr invoke
    \<and> invoke [Tensor 1, Other 2, Tensor 3] = Inr (''forward'', 5, args')
    \<and> length args' = 3
    \<and> args' ! 0 = Other 101 \<and> args' ! 1 = Other 2 \<and> args' ! 2 = Other 103"
proof -
  have h1: "JitModuleInvoker_getitem example_torch_env (TorchJitModuleInvoker 5) ''forward''
              = Inr (\<lambda>args. Inr (''forward'', 5, args))"
    by (simp add: example_torch_env_def)
  have h2: "\<forall>t. Tensor t \<in> set [Tensor 1, Other 2, Tensor (3::nat) :: (nat, nat) arg]
              \<longrightarrow> Tensor_numpy example_torch_env t = Inr (t + 100)"
    by (simp add: example_torch_env_def)
  from invoke_converts_tensors_and_delegates [OF h1 h2]
  obtain invoke args' where
    a: "TorchJitModuleInvoker_getitem example_torch_env (TorchJitModuleInvoker 5) ''forward'' = Inr invoke"
    and b: "invoke [Tensor 1, Other 2, Tensor 3] = Inr (''forward'', 5, args')"
    and c: "length args' = 3"
    and d: "\<forall>i<3. args' ! i = (case [Tensor 1, Other 2, Tensor (3::nat) :: (nat, nat) arg] ! i of
                Tensor t \<Rightarrow> Other (t + 100) | Other v \<Rightarrow> Other v)"
    by auto
  have "args' ! 0 = Other 101" "args' ! 1 = Other 2" "args' ! 2 = Other 103"
    using d [rule_format, of 0] d [rule_format, of 1] d [rule_format, of 2] by simp_all
  with a b c show ?thesis by blast
qed

text \<open>
  C3. When its own parse and run return normally (and the logger, where debug logging is
  on), \<open>compile_object_graph\<close> runs on the module
  the pipeline made of the names of \<open>OBJECT_GRAPH_LOWERING_PASSES\<close> joined by commas in tuple
  order, and then returns what \<open>compile\<close> returns on the same module object, which now holds
  the IR that this pipeline produced.
\<close>

theorem object_graph_is_lowering_then_compile:
  assumes "PassManager_parse E (join '','' OBJECT_GRAPH_LOWERING_PASSES) = Inr pmg"
    and "PassManager_run E pmg (heap s m) = (ir0, None)"
    and "debug (self s) \<longrightarrow> (\<forall>fmt arg. logging_debug E fmt arg = None)"
  shows "join '','' OBJECT_GRAPH_LOWERING_PASSES =
           ''torch-globalize-pipeline,symbol-dce,torch-adjust-calling-conventions''
       \<and> compile_object_graph E m s =
           compile E m
             (s\<lparr>heap := (heap s)(m := ir0),
                trace := trace s @ [ContextEnter m]
                  @ (if debug (self s)
                     then [LoggingDebug (''Initial PyTorch object graph IR:'' @ [CHR 0x0A] @ ''{}'')
                             (ModuleArg (heap s m)),
                           LoggingDebug (''Running Torch object graph lowering pipeline ''
                                         @ [CHR 0x27] @ ''{}'' @ [CHR 0x27])
                             (StrArg (join '','' OBJECT_GRAPH_LOWERING_PASSES))]
                     else [])
                  @ [PassManagerParse (join '','' OBJECT_GRAPH_LOWERING_PASSES),
                     PassManagerRun pmg m,
                     ContextExit m]\<rparr>)"
  using object_graph_then_compile [OF assms] object_graph_pipeline_str by simp

theorem object_graph_is_lowering_then_compile_witness:
  "compile_object_graph example_env 0 (example_state False) =
     compile example_env 0
       ((example_state False)
          \<lparr>heap := (\<lambda>r. [])(0 := [join '','' OBJECT_GRAPH_LOWERING_PASSES]),
           trace := [ContextEnter 0,
                     PassManagerParse (join '','' OBJECT_GRAPH_LOWERING_PASSES),
                     PassManagerRun (join '','' OBJECT_GRAPH_LOWERING_PASSES) 0,
                     ContextExit 0]\<rparr>)
   \<and> fst (compile_object_graph example_env 0 (example_state False))
       = Inr ([join '','' OBJECT_GRAPH_LOWERING_PASSES, join '','' TORCH_TO_TCF_PASSES, ''backend''], 7)"
proof -
  have h1: "PassManager_parse example_env (join '','' OBJECT_GRAPH_LOWERING_PASSES)
              = Inr (join '','' OBJECT_GRAPH_LOWERING_PASSES)"
    by (simp add: example_env_def object_graph_pipeline_str)
  have h2: "PassManager_run example_env (join '','' OBJECT_GRAPH_LOWERING_PASSES)
              (heap (example_state False) 0) = ([join '','' OBJECT_GRAPH_LOWERING_PASSES], None)"
    by (simp add: example_env_def example_state_def object_graph_pipeline_str)
  have d: "\<not> debug (self (example_state False))" and t: "trace (example_state False) = []"
    and h: "heap (example_state False) = (\<lambda>r. [])"
    by (simp_all add: example_defs)
  have h3: "debug (self (example_state False))
              \<longrightarrow> (\<forall>fmt arg. logging_debug example_env fmt arg = None)"
    by (simp add: example_defs)
  from object_graph_is_lowering_then_compile [OF h1 h2 h3]
  have 1: "compile_object_graph example_env 0 (example_state False) =
     compile example_env 0
       ((example_state False)
          \<lparr>heap := (\<lambda>r. [])(0 := [join '','' OBJECT_GRAPH_LOWERING_PASSES]),
           trace := [ContextEnter 0,
                     PassManagerParse (join '','' OBJECT_GRAPH_LOWERING_PASSES),
                     PassManagerRun (join '','' OBJECT_GRAPH_LOWERING_PASSES) 0,
                     ContextExit 0]\<rparr>)"
    by (simp add: d t h)
  have 2: "fst (compile_object_graph example_env 0 (example_state False))
       = Inr ([join '','' OBJECT_GRAPH_LOWERING_PASSES, join '','' TORCH_TO_TCF_PASSES, ''backend''], 7)"
    unfolding 1
    by (simp add: exec_defs example_defs frontend_pipeline_str object_graph_pipeline_str)
  from 1 2 show ?thesis by simp
qed

text \<open>
  C4. \<open>OBJECT_GRAPH_LOWERING_PASSES\<close> is the ordered triple of pass names and
  \<open>TORCH_TO_TCF_PASSES\<close> the ordered 7-tuple of pass names given below;
  \<^verbatim>\<open>func(numpy-array-to-tensor)\<close> occurs twice in the latter, at positions 2 and 5.
\<close>

theorem pass_lists:
  "OBJECT_GRAPH_LOWERING_PASSES =
     [''torch-globalize-pipeline'', ''symbol-dce'', ''torch-adjust-calling-conventions'']
   \<and> length OBJECT_GRAPH_LOWERING_PASSES = 3
   \<and> distinct OBJECT_GRAPH_LOWERING_PASSES
   \<and> TORCH_TO_TCF_PASSES =
     [''func(aten-recognize-kernels)'', ''numpy-public-functions-to-tensor'',
      ''func(numpy-array-to-tensor)'', ''func(torch-refine-types)'',
      ''numpy-refine-public-return'', ''func(numpy-array-to-tensor)'',
      ''func(convert-aten-to-tcf)'']
   \<and> length TORCH_TO_TCF_PASSES = 7
   \<and> count_list TORCH_TO_TCF_PASSES ''func(numpy-array-to-tensor)'' = 2
   \<and> TORCH_TO_TCF_PASSES ! 2 = ''func(numpy-array-to-tensor)''
   \<and> TORCH_TO_TCF_PASSES ! 5 = ''func(numpy-array-to-tensor)''"
  by (simp add: OBJECT_GRAPH_LOWERING_PASSES_def TORCH_TO_TCF_PASSES_def)

text \<open>
  C5. Neither method recovers from a failure. Provided the logger returns where debug logging
  is on, so that the failing call is reached: whichever pipeline parse or pipeline run raises
  (the three of \<open>compile\<close>, the two of \<open>compile_object_graph\<close> itself, and the three of the
  \<open>compile\<close> it ends with), the method returns that very exception, and after the failing
  call the only call made is the exit of the enclosing context: no later parse, run,
  pipeline construction or JIT module construction takes place.
\<close>

theorem errors_propagate_and_stop:
  "(PassManager_parse E (join '','' TORCH_TO_TCF_PASSES) = Inl e
      \<and> (debug (self s) \<longrightarrow> (\<forall>fmt arg. logging_debug E fmt arg = None))
    \<longrightarrow> fst (compile E m s) = Inl e
      \<and> without_logging (trace (snd (compile E m s))) = without_logging (trace s) @
           [ContextEnter m, PassManagerParse (join '','' TORCH_TO_TCF_PASSES), ContextExit m])
 \<and> (PassManager_parse E (join '','' TORCH_TO_TCF_PASSES) = Inr pm1
      \<and> PassManager_run E pm1 (heap s m) = (ir1, Some e)
      \<and> (debug (self s) \<longrightarrow> (\<forall>fmt arg. logging_debug E fmt arg = None))
    \<longrightarrow> fst (compile E m s) = Inl e
      \<and> without_logging (trace (snd (compile E m s))) = without_logging (trace s) @
           [ContextEnter m, PassManagerParse (join '','' TORCH_TO_TCF_PASSES),
            PassManagerRun pm1 m, ContextExit m])
 \<and> (PassManager_parse E (join '','' TORCH_TO_TCF_PASSES) = Inr pm1
      \<and> PassManager_run E pm1 (heap s m) = (ir1, None)
      \<and> PassManager_new E = Inr pm0
      \<and> build_backend_compilation_pipeline (refjit (self s)) pm0 = Inr pm2
      \<and> PassManager_run E pm2 ir1 = (ir2, Some e)
      \<and> (debug (self s) \<longrightarrow> (\<forall>fmt arg. logging_debug E fmt arg = None))
    \<longrightarrow> fst (compile E m s) = Inl e
      \<and> without_logging (trace (snd (compile E m s))) = without_logging (trace s) @
           [ContextEnter m, PassManagerParse (join '','' TORCH_TO_TCF_PASSES),
            PassManagerRun pm1 m, PassManagerNew, BuildBackendCompilationPipeline pm0,
            PassManagerRun pm2 m, ContextExit m])
 \<and> (PassManager_parse E (join '','' OBJECT_GRAPH_LOWERING_PASSES) = Inl e
      \<and> (debug (self s) \<longrightarrow> (\<forall>fmt arg. logging_debug E fmt arg = None))
    \<longrightarrow> fst (compile_object_graph E m s) = Inl e
      \<and> without_logging (trace (snd (compile_object_graph E m s))) = without_logging (trace s) @
           [ContextEnter m, PassManagerParse (join '','' OBJECT_GRAPH_LOWERING_PASSES),
            ContextExit m])
 \<and> (PassManager_parse E (join '','' OBJECT_GRAPH_LOWERING_PASSES) = Inr pmg
      \<and> PassManager_run E pmg (heap s m) = (ir0, Some e)
      \<and> (debug (self s) \<longrightarrow> (\<forall>fmt arg. logging_debug E fmt arg = None))
    \<longrightarrow> fst (compile_object_graph E m s) = Inl e
      \<and> without_logging (trace (snd (compile_object_graph E m s))) = without_logging (trace s) @
           [ContextEnter m, PassManagerParse (join '','' OBJECT_GRAPH_LOWERING_PASSES),
            PassManagerRun pmg m, ContextExit m])
 \<and> (PassManager_parse E (join '','' OBJECT_GRAPH_LOWERING_PASSES) = Inr pmg
      \<and> PassManager_run E pmg (heap s m) = (ir0, None)
      \<and> PassManager_parse E (join '','' TORCH_TO_TCF_PASSES) = Inl e
      \<and> (debug (self s) \<longrightarrow> (\<forall>fmt arg. logging_debug E fmt arg = None))
    \<longrightarrow> fst (compile_object_graph E m s) = Inl e
      \<and> without_logging (trace (snd (compile_object_graph E m s))) = without_logging (trace s) @
           [ContextEnter m, PassManagerParse (join '','' OBJECT_GRAPH_LOWERING_PASSES),
            PassManagerRun pmg m, ContextExit m,
            ContextEnter m, PassManagerParse (join '','' TORCH_TO_TCF_PASSES), ContextExit m])
 \<and> (PassManager_parse E (join '','' OBJECT_GRAPH_LOWERING_PASSES) = Inr pmg
      \<and> PassManager_run E pmg (heap s m) = (ir0, None)
      \<and> PassManager_parse E (join '','' TORCH_TO_TCF_PASSES) = Inr pm1
      \<and> PassManager_run E pm1 ir0 = (ir1, Some e)
      \<and> (debug (self s) \<longrightarrow> (\<forall>fmt arg. logging_debug E fmt arg = None))
    \<longrightarrow> fst (compile_object_graph E m s) = Inl e
      \<and> without_logging (trace (snd (compile_object_graph E m s))) = without_logging (trace s) @
           [ContextEnter m, PassManagerParse (join '','' OBJECT_GRAPH_LOWERING_PASSES),
            PassManagerRun pmg m, ContextExit m,
            ContextEnter m, PassManagerParse (join '','' TORCH_TO_TCF_PASSES),
            PassManagerRun pm1 m, ContextExit m])
 \<and> (PassManager_parse E (join '','' OBJECT_GRAPH_LOWERING_PASSES) = Inr pmg
      \<and> PassManager_run E pmg (heap s m) = (ir0, None)
      \<and> PassManager_parse E (join '','' TORCH_TO_TCF_PASSES) = Inr pm1
      \<and> PassManager_run E pm1 ir0 = (ir1, None)
      \<and> PassManager_new E = Inr pm0
      \<and> build_backend_compilation_pipeline (refjit (self s)) pm0 = Inr pm2
      \<and> PassManager_run E pm2 ir1 = (ir2, Some e)
      \<and> (debug (self s) \<longrightarrow> (\<forall>fmt arg. logging_debug E fmt arg = None))
    \<longrightarrow> fst (compile_object_graph E m s) = Inl e
      \<and> without_logging (trace (snd (compile_object_graph E m s))) = without_logging (trace s) @
           [ContextEnter m, PassManagerParse (join '','' OBJECT_GRAPH_LOWERING_PASSES),
            PassManagerRun pmg m, ContextExit m,
            ContextEnter m, PassManagerParse (join '','' TORCH_TO_TCF_PASSES),
            PassManagerRun pm1 m, PassManagerNew, BuildBackendCompilationPipeline pm0,
            PassManagerRun pm2 m, ContextExit m])"
  (is "?P1 \<and> ?P2 \<and> ?P3 \<and> ?G1 \<and> ?G2 \<and> ?G3 \<and> ?G4 \<and> ?G5")
proof -
  have ?P1 using compile_parse_raises(1,3) [of E e s m] by blast
  moreover have ?P2 using compile_run1_raises(1,3) [of E pm1 s m ir1 e] by blast
  moreover have ?P3 using compile_run2_raises(1,3) [of E pm1 s m ir1 pm0 pm2 ir2 e] by blast
  moreover have ?G1 using object_graph_parse_raises(1,3) [of E e s m] by blast
  moreover have ?G2 using object_graph_run_raises(1,3) [of E pmg s m ir0 e] by blast
  moreover have ?G3 using object_graph_compile_parse_raises [of E pmg s m ir0 e] by blast
  moreover have ?G4 using object_graph_compile_run1_raises [of E pmg s m ir0 pm1 ir1 e] by blast
  moreover have ?G5
    using object_graph_compile_run2_raises [of E pmg s m ir0 pm1 ir1 pm0 pm2 ir2 e] by blast
  ultimately show ?thesis by blast
qed

theorem errors_propagate_and_stop_witness:
  "fst (compile (example_env\<lparr>PassManager_parse := (\<lambda>str. Inl (Exception ''parse error''))\<rparr>)
          0 (example_state False)) = Inl (Exception ''parse error'')
   \<and> without_logging (trace (snd (compile
          (example_env\<lparr>PassManager_parse := (\<lambda>str. Inl (Exception ''parse error''))\<rparr>)
          0 (example_state False))))
       = [ContextEnter 0, PassManagerParse (join '','' TORCH_TO_TCF_PASSES), ContextExit 0]
   \<and> fst (compile (example_env\<lparr>PassManager_run := (\<lambda>pm ir. (ir, Some (Exception ''pass failed'')))\<rparr>)
          0 (example_state False)) = Inl (Exception ''pass failed'')
   \<and> fst (compile example_env 0
          ((example_state False)\<lparr>self := \<lparr>refjit = example_refjit
               \<lparr>build_backend_compilation_pipeline := (\<lambda>pm. Inr ''fail'')\<rparr>, debug = False\<rparr>\<rparr>))
       = Inl (Exception ''pass failed'')
   \<and> fst (compile_object_graph (example_env\<lparr>PassManager_parse := (\<lambda>str. Inl (Exception ''parse error''))\<rparr>)
          0 (example_state False)) = Inl (Exception ''parse error'')
   \<and> fst (compile_object_graph
          (example_env\<lparr>PassManager_run := (\<lambda>pm ir. (ir, Some (Exception ''pass failed'')))\<rparr>)
          0 (example_state False)) = Inl (Exception ''pass failed'')
   \<and> fst (compile_object_graph
          (example_env\<lparr>PassManager_parse := (\<lambda>str. if str = join '','' OBJECT_GRAPH_LOWERING_PASSES
                                                   then Inr str else Inl (Exception ''parse error''))\<rparr>)
          0 (example_state False)) = Inl (Exception ''parse error'')
   \<and> fst (compile_object_graph
          (example_env\<lparr>PassManager_run := (\<lambda>pm ir. if pm = join '','' OBJECT_GRAPH_LOWERING_PASSES
                                                   then (ir @ [pm], None)
                                                   else (ir, Some (Exception ''pass failed'')))\<rparr>)
          0 (example_state False)) = Inl (Exception ''pass failed'')
   \<and> fst (compile_object_graph example_env 0
          ((example_state False)\<lparr>self := \<lparr>refjit = example_refjit
               \<lparr>build_backend_compilation_pipeline := (\<lambda>pm. Inr ''fail'')\<rparr>, debug = False\<rparr>\<rparr>))
       = Inl (Exception ''pass failed'')"
proof -
  let ?T = "join '','' TORCH_TO_TCF_PASSES" and ?G = "join '','' OBJECT_GRAPH_LOWERING_PASSES"
  let ?x = "Exception ''parse error''" and ?y =  "Exception ''pass failed''"
  let ?Ep = "example_env\<lparr>PassManager_parse := (\<lambda>str. Inl ?x)\<rparr>"
  let ?Er = "example_env\<lparr>PassManager_run := (\<lambda>pm ir. (ir, Some ?y))\<rparr>"
  let ?Ep2 = "example_env\<lparr>PassManager_parse := (\<lambda>str. if str = ?G then Inr str else Inl ?x)\<rparr>"
  let ?Er2 = "example_env\<lparr>PassManager_run := (\<lambda>pm ir. if pm = ?G then (ir @ [pm], None)
                                                   else (ir, Some ?y))\<rparr>"
  let ?s = "example_state False"
  let ?sb = "(example_state False)\<lparr>self := \<lparr>refjit = example_refjit
               \<lparr>build_backend_compilation_pipeline := (\<lambda>pm. Inr ''fail'')\<rparr>, debug = False\<rparr>\<rparr>"
  note defs = example_env_def example_state_def example_refjit_def CompilerBackend_init_def
    frontend_pipeline_str object_graph_pipeline_str
  note stop = errors_propagate_and_stop
  have p1: "fst (compile ?Ep 0 ?s) = Inl ?x
      \<and> without_logging (trace (snd (compile ?Ep 0 ?s))) = [ContextEnter 0, PassManagerParse ?T, ContextExit 0]"
    using stop [THEN conjunct1, of ?Ep ?x ?s 0] by (simp add: defs)
  have p2: "fst (compile ?Er 0 ?s) = Inl ?y"
    using stop [THEN conjunct2, THEN conjunct1, of ?Er ?T ?s 0 "[]" ?y] by (simp add: defs)
  have p3: "fst (compile example_env 0 ?sb) = Inl ?y"
    using stop [THEN conjunct2, THEN conjunct2, THEN conjunct1,
        of example_env ?T ?sb 0 "[?T]" "[]" "''fail''" "[?T]" ?y] by (simp add: defs)
  have g1: "fst (compile_object_graph ?Ep 0 ?s) = Inl ?x"
    using stop [THEN conjunct2, THEN conjunct2, THEN conjunct2, THEN conjunct1, of ?Ep ?x ?s 0]
    by (simp add: defs)
  have g2: "fst (compile_object_graph ?Er 0 ?s) = Inl ?y"
    using stop [THEN conjunct2, THEN conjunct2, THEN conjunct2, THEN conjunct2, THEN conjunct1,
        of ?Er ?G ?s 0 "[]" ?y]
    by (simp add: defs)
  have g3: "fst (compile_object_graph ?Ep2 0 ?s) = Inl ?x"
    using stop [THEN conjunct2, THEN conjunct2, THEN conjunct2, THEN conjunct2, THEN conjunct2,
        THEN conjunct1, of ?Ep2 ?G ?s 0 "[?G]" ?x]
    by (simp add: defs)
  have g4: "fst (compile_object_graph ?Er2 0 ?s) = Inl ?y"
    using stop [THEN conjunct2, THEN conjunct2, THEN conjunct2, THEN conjunct2, THEN conjunct2,
        THEN conjunct2, THEN conjunct1, of ?Er2 ?G ?s 0 "[?G]" ?T "[?G]" ?y]
    by (simp add: defs)
  have g5: "fst (compile_object_graph example_env 0 ?sb) = Inl ?y"
    using stop [THEN conjunct2, THEN conjunct2, THEN conjunct2, THEN conjunct2, THEN conjunct2,
        THEN conjunct2, THEN conjunct2, of example_env ?G ?sb 0 "[?G]" ?T "[?G, ?T]" "[]" "''fail''"
        "[?G, ?T]" ?y]
    by (simp add: defs)
  from p1 p2 p3 g1 g2 g3 g4 g5 show ?thesis by simp
qed

text \<open>
  C6 as stated, that the compile path makes exactly three calls into external collaborators,
  fails: on the concrete collaborators above, with debug logging off, \<open>compile\<close> makes nine.
\<close>

theorem compile_three_calls_counterexample:
  "trace (snd (compile example_env 0 (example_state False))) =
     [ContextEnter 0,
      PassManagerParse (join '','' TORCH_TO_TCF_PASSES),
      PassManagerRun (join '','' TORCH_TO_TCF_PASSES) 0,
      PassManagerNew,
      BuildBackendCompilationPipeline [],
      PassManagerRun ''backend'' 0,
      ContextExit 0,
      GetRuntimeLibs,
      FromCompiledModule 0 7]
   \<and> length (trace (snd (compile example_env 0 (example_state False)))) \<noteq> 3"
  by (simp add: exec_defs example_defs frontend_pipeline_str)

text \<open>
  C6, amended. When every collaborator returns normally (the logger too, where debug logging
  is on), \<open>compile\<close> makes exactly nine calls
  into external collaborators with debug logging off and thirteen with it on; exactly three
  of them are handed the module to transform it or to build from it: the two \<^verbatim>\<open>pm.run\<close>
  and \<^verbatim>\<open>JITModule.from_compiled_module\<close>.
\<close>

theorem compile_external_calls:
  assumes "PassManager_parse E (join '','' TORCH_TO_TCF_PASSES) = Inr pm1"
    and "PassManager_run E pm1 (heap s m) = (ir1, None)"
    and "PassManager_new E = Inr pm0"
    and "build_backend_compilation_pipeline (refjit (self s)) pm0 = Inr pm2"
    and "PassManager_run E pm2 ir1 = (ir2, None)"
    and "get_runtime_libs E = Inr libs"
    and "debug (self s) \<longrightarrow> (\<forall>fmt arg. logging_debug E fmt arg = None)"
  shows "length (trace (snd (compile E m s))) = length (trace s) + (if debug (self s) then 13 else 9)
       \<and> length (without_logging (trace (snd (compile E m s)))) = length (without_logging (trace s)) + 9
       \<and> length (filter consumes_module (trace (snd (compile E m s))))
           = length (filter consumes_module (trace s)) + 3
       \<and> filter consumes_module (trace (snd (compile E m s)))
           = filter consumes_module (trace s)
             @ [PassManagerRun pm1 m, PassManagerRun pm2 m, FromCompiledModule m libs]"
  by (simp add: compile_ok [OF assms])

theorem compile_external_calls_witness:
  "length (trace (snd (compile example_env 0 (example_state False)))) = 9
   \<and> length (trace (snd (compile example_env 0 (example_state True)))) = 13
   \<and> filter consumes_module (trace (snd (compile example_env 0 (example_state False))))
       = [PassManagerRun (join '','' TORCH_TO_TCF_PASSES) 0, PassManagerRun ''backend'' 0,
          FromCompiledModule 0 7]"
proof -
  have h1: "PassManager_parse example_env (join '','' TORCH_TO_TCF_PASSES)
              = Inr (join '','' TORCH_TO_TCF_PASSES)"
    by (simp add: example_env_def frontend_pipeline_str)
  have h2: "PassManager_run example_env (join '','' TORCH_TO_TCF_PASSES)
              (heap (example_state d) 0) = ([join '','' TORCH_TO_TCF_PASSES], None)" for d
    by (simp add: example_env_def example_state_def frontend_pipeline_str)
  have h3: "PassManager_new example_env = Inr []"
    by (simp add: example_env_def)
  have h4: "build_backend_compilation_pipeline (refjit (self (example_state d))) []
              = Inr ''backend''" for d
    by (simp add: example_defs)
  have h5: "PassManager_run example_env ''backend'' [join '','' TORCH_TO_TCF_PASSES]
              = ([join '','' TORCH_TO_TCF_PASSES, ''backend''], None)"
    by (simp add: example_env_def)
  have h6: "get_runtime_libs example_env = Inr 7"
    by (simp add: example_env_def)
  have t: "trace (example_state d) = []" and d: "debug (self (example_state d)) = d" for d
    by (simp_all add: example_defs)
  have h7: "debug (self (example_state d))
              \<longrightarrow> (\<forall>fmt arg. logging_debug example_env fmt arg = None)" for d
    by (simp add: example_defs)
  from compile_external_calls [OF h1 h2 h3 h4 h5 h6 h7, of False]
       compile_external_calls [OF h1 h2 h3 h4 h5 h6 h7, of True]
  show ?thesis by (simp add: t d)
qed

text \<open>
  C7. For every JIT module that \<open>compile\<close> returns, \<open>load\<close> returns a
  \<open>TorchJitModuleInvoker\<close> built from exactly that JIT module; it makes no call into the
  collaborators (no pass run, no compilation) and changes no module.
\<close>

theorem load_wraps_jit_module:
  assumes "fst (compile E m s) = Inr jit_module"
  shows "fst (load jit_module (snd (compile E m s))) = TorchJitModuleInvoker jit_module
       \<and> held_jit_module (fst (load jit_module (snd (compile E m s)))) = jit_module
       \<and> snd (load jit_module (snd (compile E m s))) = snd (compile E m s)
       \<and> trace (snd (load jit_module (snd (compile E m s)))) = trace (snd (compile E m s))
       \<and> heap (snd (load jit_module (snd (compile E m s)))) = heap (snd (compile E m s))"
  by (simp add: load_def)

theorem load_wraps_jit_module_witness:
  "fst (compile example_env 0 (example_state False))
     = Inr ([join '','' TORCH_TO_TCF_PASSES, ''backend''], 7)
   \<and> fst (load ([join '','' TORCH_TO_TCF_PASSES, ''backend''], 7)
        (snd (compile example_env 0 (example_state False))))
     = TorchJitModuleInvoker ([join '','' TORCH_TO_TCF_PASSES, ''backend''], 7)
   \<and> trace (snd (load ([join '','' TORCH_TO_TCF_PASSES, ''backend''], 7)
        (snd (compile example_env 0 (example_state False)))))
     = trace (snd (compile example_env 0 (example_state False)))"
proof -
  have h: "fst (compile example_env 0 (example_state False))
     = Inr ([join '','' TORCH_TO_TCF_PASSES, ''backend''], 7)"
    by (simp add: exec_defs example_defs frontend_pipeline_str)
  from load_wraps_jit_module [OF h] h show ?thesis by simp
qed

text \<open>
  C8. The fields of the backend object are never reassigned: after any sequence of calls of
  \<open>compile\<close>, \<open>compile_object_graph\<close> and \<open>load\<close> they are what they were before, so a
  backend built by \<open>__init__\<close> still holds the refjit object and the debug flag that
  \<open>__init__\<close> stored.
\<close>

theorem backend_fields_never_reassigned:
  "self (invoke_methods E calls s) = self s
   \<and> refjit (self (invoke_methods E calls (s\<lparr>self := CompilerBackend_init E\<rparr>))) = get_refjit E
   \<and> debug (self (invoke_methods E calls (s\<lparr>self := CompilerBackend_init E\<rparr>))) = debug_enabled E"
  by (simp add: invoke_methods_self CompilerBackend_init_def)

theorem backend_fields_never_reassigned_witness:
  "self (invoke_methods example_env
           [Compile 0, CompileObjectGraph 1, Load ([], 7), Compile 0] (example_state True))
     = \<lparr>refjit = example_refjit, debug = True\<rparr>"
  using backend_fields_never_reassigned
    [of example_env "[Compile 0, CompileObjectGraph 1, Load ([], 7), Compile 0]" "example_state True"]
  by (simp add: example_defs)

text \<open>
  C9. \<open>compile\<close> and \<open>compile_object_graph\<close> rewrite the caller's module in place: when the
  collaborators return normally (the logger too, where debug logging is on), the module object that was passed in holds, after the call,
  the IR produced by the last (backend) pipeline run rather than the IR it held before, and
  every other module is untouched.
\<close>

theorem module_rewritten_in_place:
  "(PassManager_parse E (join '','' TORCH_TO_TCF_PASSES) = Inr pm1
      \<and> PassManager_run E pm1 (heap s m) = (ir1, None)
      \<and> PassManager_new E = Inr pm0
      \<and> build_backend_compilation_pipeline (refjit (self s)) pm0 = Inr pm2
      \<and> PassManager_run E pm2 ir1 = (ir2, None)
      \<and> get_runtime_libs E = Inr libs
      \<and> (debug (self s) \<longrightarrow> (\<forall>fmt arg. logging_debug E fmt arg = None))
    \<longrightarrow> heap (snd (compile E m s)) = (heap s)(m := ir2))
   \<and> (PassManager_parse E (join '','' OBJECT_GRAPH_LOWERING_PASSES) = Inr pmg
      \<and> PassManager_run E pmg (heap s m) = (ir0, None)
      \<and> PassManager_parse E (join '','' TORCH_TO_TCF_PASSES) = Inr pm1
      \<and> PassManager_run E pm1 ir0 = (ir1', None)
      \<and> PassManager_new E = Inr pm0
      \<and> build_backend_compilation_pipeline (refjit (self s)) pm0 = Inr pm2
      \<and> PassManager_run E pm2 ir1' = (ir2', None)
      \<and> get_runtime_libs E = Inr libs
      \<and> (debug (self s) \<longrightarrow> (\<forall>fmt arg. logging_debug E fmt arg = None))
    \<longrightarrow> heap (snd (compile_object_graph E m s)) = (heap s)(m := ir2'))"
proof (intro conjI impI)
  assume "PassManager_parse E (join '','' TORCH_TO_TCF_PASSES) = Inr pm1
      \<and> PassManager_run E pm1 (heap s m) = (ir1, None)
      \<and> PassManager_new E = Inr pm0
      \<and> build_backend_compilation_pipeline (refjit (self s)) pm0 = Inr pm2
      \<and> PassManager_run E pm2 ir1 = (ir2, None)
      \<and> get_runtime_libs E = Inr libs
      \<and> (debug (self s) \<longrightarrow> (\<forall>fmt arg. logging_debug E fmt arg = None))"
  then show "heap (snd (compile E m s)) = (heap s)(m := ir2)"
    by (simp add: compile_ok)
next
  assume a: "PassManager_parse E (join '','' OBJECT_GRAPH_LOWERING_PASSES) = Inr pmg
      \<and> PassManager_run E pmg (heap s m) = (ir0, None)
      \<and> PassManager_parse E (join '','' TORCH_TO_TCF_PASSES) = Inr pm1
      \<and> PassManager_run E pm1 ir0 = (ir1', None)
      \<and> PassManager_new E = Inr pm0
      \<and> build_backend_compilation_pipeline (refjit (self s)) pm0 = Inr pm2
      \<and> PassManager_run E pm2 ir1' = (ir2', None)
      \<and> get_runtime_libs E = Inr libs
      \<and> (debug (self s) \<longrightarrow> (\<forall>fmt arg. logging_debug E fmt arg = None))"
  then have "compile_object_graph E m s =
     compile E m
       (s\<lparr>heap := (heap s)(m := ir0),
          trace := trace s @ [ContextEnter m]
            @ (if debug (self s)
               then [LoggingDebug (''Initial PyTorch object graph IR:'' @ [CHR 0x0A] @ ''{}'')
                       (ModuleArg (heap s m)),
                     LoggingDebug (''Running Torch object graph lowering pipeline ''
                                   @ [CHR 0x27] @ ''{}'' @ [CHR 0x27])
                       (StrArg (join '','' OBJECT_GRAPH_LOWERING_PASSES))]
               else [])
            @ [PassManagerParse (join '','' OBJECT_GRAPH_LOWERING_PASSES),
               PassManagerRun pmg m, ContextExit m]\<rparr>)" (is "_ = compile E m ?s1")
    by (simp add: object_graph_then_compile)
  moreover from a have "heap (snd (compile E m ?s1)) = (heap ?s1)(m := ir2')"
    using compile_ok [of E pm1 ?s1 m ir1' pm0 pm2 ir2' libs] by simp
  ultimately show "heap (snd (compile_object_graph E m s)) = (heap s)(m := ir2')"
    by simp
qed

theorem module_rewritten_in_place_witness:
  "heap (snd (compile example_env 0 (example_state False)))
     = (\<lambda>r. [])(0 := [join '','' TORCH_TO_TCF_PASSES, ''backend''])
   \<and> heap (snd (compile_object_graph example_env 0 (example_state False)))
     = (\<lambda>r. [])(0 := [join '','' OBJECT_GRAPH_LOWERING_PASSES, join '','' TORCH_TO_TCF_PASSES,
                       ''backend''])
   \<and> heap (snd (compile example_env 0 (example_state False))) 0 \<noteq> heap (example_state False) 0"
proof -
  have h: "heap (example_state False) = (\<lambda>r. [])"
    by (simp add: example_defs)
  from module_rewritten_in_place [of example_env "join '','' TORCH_TO_TCF_PASSES"
      "example_state False" 0 "[join '','' TORCH_TO_TCF_PASSES]" "[]" "''backend''"
      "[join '','' TORCH_TO_TCF_PASSES, ''backend'']" 7
      "join '','' OBJECT_GRAPH_LOWERING_PASSES" "[join '','' OBJECT_GRAPH_LOWERING_PASSES]"
      "[join '','' OBJECT_GRAPH_LOWERING_PASSES, join '','' TORCH_TO_TCF_PASSES]"
      "[join '','' OBJECT_GRAPH_LOWERING_PASSES, join '','' TORCH_TO_TCF_PASSES, ''backend'']"]
  have "heap (snd (compile example_env 0 (example_state False)))
     = (\<lambda>r. [])(0 := [join '','' TORCH_TO_TCF_PASSES, ''backend''])
   \<and> heap (snd (compile_object_graph example_env 0 (example_state False)))
     = (\<lambda>r. [])(0 := [join '','' OBJECT_GRAPH_LOWERING_PASSES, join '','' TORCH_TO_TCF_PASSES,
                       ''backend''])"
    unfolding h
    by (simp add: example_env_def example_refjit_def example_state_def CompilerBackend_init_def
        frontend_pipeline_str object_graph_pipeline_str)
  then show ?thesis by (simp add: h)
qed

text \<open>
  C10 as stated, that the result of \<open>compile\<close> is the same whether the backend was constructed
  with debug logging on or off, fails when \<^verbatim>\<open>logging.debug\<close> raises: with debug on the
  logger's exception is what \<open>compile\<close> (and \<open>compile_object_graph\<close>) returns, with debug off
  the JIT module is returned.
\<close>

theorem debug_flag_interferes_counterexample:
  "fst (compile failing_logger_env 0
         ((example_state False)
            \<lparr>self := CompilerBackend_init (failing_logger_env\<lparr>debug_enabled := True\<rparr>)\<rparr>))
     = Inl (Exception ''log failed'')
   \<and> fst (compile failing_logger_env 0
         ((example_state False)
            \<lparr>self := CompilerBackend_init (failing_logger_env\<lparr>debug_enabled := False\<rparr>)\<rparr>))
     = Inr ([join '','' TORCH_TO_TCF_PASSES, ''backend''], 7)
   \<and> fst (compile failing_logger_env 0
         ((example_state False)
            \<lparr>self := CompilerBackend_init (failing_logger_env\<lparr>debug_enabled := True\<rparr>)\<rparr>))
     \<noteq> fst (compile failing_logger_env 0
         ((example_state False)
            \<lparr>self := CompilerBackend_init (failing_logger_env\<lparr>debug_enabled := False\<rparr>)\<rparr>))
   \<and> fst (compile_object_graph failing_logger_env 0
         ((example_state False)
            \<lparr>self := CompilerBackend_init (failing_logger_env\<lparr>debug_enabled := True\<rparr>)\<rparr>))
     \<noteq> fst (compile_object_graph failing_logger_env 0
         ((example_state False)
            \<lparr>self := CompilerBackend_init (failing_logger_env\<lparr>debug_enabled := False\<rparr>)\<rparr>))"
  by (simp add: exec_defs example_defs failing_logger_env_def frontend_pipeline_str
      object_graph_pipeline_str)

text \<open>
  C10, amended. Provided every call of \<^verbatim>\<open>logging.debug\<close> returns normally, the debug flag
  does not interfere with compilation: for a backend constructed while
  \<^verbatim>\<open>logging.debug_enabled()\<close> was true and one constructed while it was false, \<open>compile\<close>
  and \<open>compile_object_graph\<close> on the same module give the same result (the same JIT module or
  the same exception), leave the same IR in every module, and make the same calls into the
  collaborators apart from \<^verbatim>\<open>logging.debug\<close>.
\<close>

theorem debug_flag_does_not_interfere:
  assumes "\<forall>fmt arg. logging_debug E fmt arg = None"
  shows
  "fst (compile E m (s\<lparr>self := CompilerBackend_init (E\<lparr>debug_enabled := True\<rparr>)\<rparr>))
     = fst (compile E m (s\<lparr>self := CompilerBackend_init (E\<lparr>debug_enabled := False\<rparr>)\<rparr>))
   \<and> heap (snd (compile E m (s\<lparr>self := CompilerBackend_init (E\<lparr>debug_enabled := True\<rparr>)\<rparr>)))
     = heap (snd (compile E m (s\<lparr>self := CompilerBackend_init (E\<lparr>debug_enabled := False\<rparr>)\<rparr>)))
   \<and> without_logging (trace (snd (compile E m (s\<lparr>self := CompilerBackend_init (E\<lparr>debug_enabled := True\<rparr>)\<rparr>))))
     = without_logging (trace (snd (compile E m (s\<lparr>self := CompilerBackend_init (E\<lparr>debug_enabled := False\<rparr>)\<rparr>))))
   \<and> fst (compile_object_graph E m (s\<lparr>self := CompilerBackend_init (E\<lparr>debug_enabled := True\<rparr>)\<rparr>))
     = fst (compile_object_graph E m (s\<lparr>self := CompilerBackend_init (E\<lparr>debug_enabled := False\<rparr>)\<rparr>))
   \<and> heap (snd (compile_object_graph E m (s\<lparr>self := CompilerBackend_init (E\<lparr>debug_enabled := True\<rparr>)\<rparr>)))
     = heap (snd (compile_object_graph E m (s\<lparr>self := CompilerBackend_init (E\<lparr>debug_enabled := False\<rparr>)\<rparr>)))
   \<and> without_logging (trace (snd (compile_object_graph E m (s\<lparr>self := CompilerBackend_init (E\<lparr>debug_enabled := True\<rparr>)\<rparr>))))
     = without_logging (trace (snd (compile_object_graph E m (s\<lparr>self := CompilerBackend_init (E\<lparr>debug_enabled := False\<rparr>)\<rparr>))))"
proof -
  let ?T = "s\<lparr>self := CompilerBackend_init (E\<lparr>debug_enabled := True\<rparr>)\<rparr>"
  let ?F = "s\<lparr>self := CompilerBackend_init (E\<lparr>debug_enabled := False\<rparr>)\<rparr>"
  have a: "agree ?T ?F" by (simp add: agree_def CompilerBackend_init_def)
  from debug_oblivious_compile [OF assms, of m] a
  have c: "fst (compile E m ?T) = fst (compile E m ?F)
           \<and> agree (snd (compile E m ?T)) (snd (compile E m ?F))"
    unfolding debug_oblivious_def by blast
  from debug_oblivious_compile_object_graph [OF assms, of m] a
  have g: "fst (compile_object_graph E m ?T) = fst (compile_object_graph E m ?F)
           \<and> agree (snd (compile_object_graph E m ?T)) (snd (compile_object_graph E m ?F))"
    unfolding debug_oblivious_def by blast
  from c g show ?thesis by (simp add: agree_def)
qed

theorem debug_flag_does_not_interfere_witness:
  "(\<forall>fmt arg. logging_debug example_env fmt arg = None)
   \<and> fst (compile example_env 0 (example_state True)) = fst (compile example_env 0 (example_state False))
   \<and> fst (compile example_env 0 (example_state True)) = Inr ([join '','' TORCH_TO_TCF_PASSES, ''backend''], 7)
   \<and> heap (snd (compile example_env 0 (example_state True))) 0
       = heap (snd (compile example_env 0 (example_state False))) 0
   \<and> length (trace (snd (compile example_env 0 (example_state True)))) = 13
   \<and> length (trace (snd (compile example_env 0 (example_state False)))) = 9"
proof -
  have l: "\<forall>fmt arg. logging_debug example_env fmt arg = None"
    by (simp add: example_env_def)
  have T: "example_state True = (example_state True)\<lparr>self := CompilerBackend_init (example_env\<lparr>debug_enabled := True\<rparr>)\<rparr>"
    and F: "example_state False = (example_state True)\<lparr>self := CompilerBackend_init (example_env\<lparr>debug_enabled := False\<rparr>)\<rparr>"
    by (simp_all add: example_state_def)
  from debug_flag_does_not_interfere [OF l, of 0 "example_state True"]
  have "fst (compile example_env 0 (example_state True)) = fst (compile example_env 0 (example_state False))"
    and "heap (snd (compile example_env 0 (example_state True)))
       = heap (snd (compile example_env 0 (example_state False)))"
    unfolding T [symmetric] F [symmetric] by simp_all
  moreover have "fst (compile example_env 0 (example_state True)) = Inr ([join '','' TORCH_TO_TCF_PASSES, ''backend''], 7)"
    by (simp add: exec_defs example_defs TORCH_TO_TCF_PASSES_def)
  moreover have "length (trace (snd (compile example_env 0 (example_state True)))) = 13"
    by (simp add: exec_defs example_defs TORCH_TO_TCF_PASSES_def)
  moreover have "length (trace (snd (compile example_env 0 (example_state False)))) = 9"
    by (simp add: exec_defs example_defs TORCH_TO_TCF_PASSES_def)
  ultimately show ?thesis using l by simp
qed

end
